theory Spec2Isabelle
  imports Main
begin

section \<open>Python values reaching \<open>ontology_document.py\<close>\<close>

text \<open>Modelled from the spec: \<open>Prefix\<close>, \<open>PrefixName\<close> and \<open>FullIRI\<close> are defined outside this
  file. A prefix entry is a short name, possibly none (the default prefix), and a full
  identifier; \<open>PrefixName(key)\<close> is the text \<open>key\<close> and \<open>FullIRI(value)\<close> is \<open>value\<close>.\<close>

datatype 'v prefix = Prefix (prefixName: "string option") (fullIRI: 'v)

text \<open>
  The module is dynamically typed: the constructor of \<open>Ontology\<close> classifies its positional
  arguments by \<open>isinstance\<close>, and a named field may carry any value. The values are therefore
  one datatype.

  \<^item> \<open>NoneV\<close> is \<open>None\<close>.
  \<^item> \<open>Ext iri ax tr s\<close> is an object of a class that is defined outside this file
    (\<open>IRI\<close> and its subclasses, the axiom classes, \<open>Annotation\<close>, \<open>str\<close>, ...). All this
    file ever asks of such an object is recorded in it: \<open>iri\<close> is \<open>isinstance(x, IRI)\<close>,
    \<open>ax\<close> is \<open>isinstance_(x, Axiom)\<close>, \<open>tr\<close> is its truth value \<open>bool(x)\<close> and \<open>s\<close> is
    \<open>str(x)\<close>.
  \<^item> \<open>ImportV v\<close> is \<open>Import(iri=v)\<close>.
  \<^item> \<open>OntologyV o\<close> is an instance of \<open>Ontology\<close>.
  \<^item> \<open>PrefixV p\<close> is an instance \<open>p\<close> of \<open>Prefix\<close>.
  \<^item> \<open>ListV xs\<close> is a Python list.
  \<^item> \<open>MethodV n\<close> is the bound method \<open>n\<close> of an \<open>Ontology\<close> instance, which is what
    \<open>getattr\<close> returns for a method name.

  An \<open>Ontology\<close> instance has the five dataclass fields. Both list fields that the
  constructor fills by \<open>append\<close> are lists by construction; the other three hold whatever
  was assigned. \<open>other_attrs\<close> is the rest of the instance dictionary (attributes that
  \<open>setattr\<close> created under another name). Attribute assignment on an \<open>Ontology\<close> or an
  \<open>Import\<close> is plain assignment: neither class defines \<open>__setattr__\<close>.
\<close>

datatype pyval =
    NoneV
  | Ext (inst_IRI: bool) (inst_Axiom: bool) (truth: bool) (str_form: string)
  | ImportV pyval
  | OntologyV ontology
  | PrefixV "pyval prefix"
  | ListV "pyval list"
  | MethodV string
and ontology =
  Ontology (iri: pyval) (version: pyval) (directlyImportsDocuments: "pyval list")
    (axioms: "pyval list") (annotations: pyval) (other_attrs: "(string \<times> pyval) list")

text \<open>
  Every \<open>raise\<close> of the file and every exception Python itself raises on the modelled paths
  is a constructor. The three \<open>ValueError\<close>s are told apart by their message:
  \<open>UnknownArgument k\<close> is \<open>ValueError("Unknown argument to Ontology: k")\<close>,
  \<open>UnrecognizedArguments args\<close> is \<open>ValueError("Unrecognized arguments ot Ontology: args")\<close>
  and \<open>VersionWithoutIRI v\<close> is
  \<open>ValueError("Ontology cannot have a versionIRI (v without an ontologyIRI")\<close>.
  \<open>ExternalError\<close> is an exception raised inside a collaborator.
\<close>

datatype error =
    UnknownArgument string
  | UnrecognizedArguments "pyval list"
  | VersionWithoutIRI pyval
  | TypeError
  | AttributeError
  | AssertionError
  | ExternalError string

subsection \<open>The RDF sink and the functional writer\<close>

text \<open>
  Modelled from the spec: \<open>rdflib\<close> is not part of the file. A node is a named resource or an
  anonymous node. A graph is a sink, modelled by what the file does to it: the
  triples passed to \<open>g.add\<close>, in call order, and its namespace bindings (prefix and
  namespace object, as \<open>g.namespaces()\<close> lists them). \<open>BNode()\<close> draws
  a new anonymous node; the supply of unused node numbers is threaded with the graph.
\<close>

datatype node = URIRef string | BNode nat

type_synonym triple = "node \<times> node \<times> node"

record graph =
  triples :: "triple list"
  namespaces :: "(string \<times> pyval) list"
  next_bnode :: nat

text \<open>
  Modelled from the spec: \<open>FunctionalWriter\<close> is not part of the file. A writer is an
  accumulator, modelled by the calls it
  receives: \<open>w.opt(v)\<close>, \<open>w.br(b)\<close>, \<open>w.iter(xs, indent=i)\<close>, \<open>w.hardbr()\<close>,
  \<open>w + v\<close> and \<open>w.func(self, body, indent=i)\<close>, where the body of a \<open>func\<close> is the list
  of calls the lambda makes. \<open>w_g\<close> is the writer's graph \<open>w.g\<close>. A writer object is true.
\<close>

datatype wcall =
    W_opt pyval
  | W_br bool
  | W_iter pyval bool
  | W_hardbr
  | W_add pyval
  | W_func pyval "wcall list" bool

record writer =
  calls :: "wcall list"
  w_g :: graph

subsection \<open>Collaborators\<close>

text \<open>
  Behaviour of classes that this file uses and does not define is a parameter of the model:
  \<^item> \<open>ext_add a b\<close>: \<open>a + b\<close> for an object \<open>a\<close> of an external class;
  \<^item> \<open>ext_iri_attr x\<close>: the attribute \<open>x.iri\<close> of an object of an external class
    (\<open>Inl AttributeError\<close> when it has none);
  \<^item> \<open>obj_str x\<close>: \<open>str(x)\<close> where \<open>__str__\<close> comes from a base class or a builtin;
  \<^item> \<open>base_attr k\<close>: the class attribute \<open>k\<close> that \<open>Ontology\<close> inherits from
    \<open>Annotatable\<close>, \<open>FunOwlBase\<close> and \<open>object\<close>, \<open>None\<close> when there is none;
  \<^item> \<open>IRI_new s\<close>: the constructor call \<open>IRI(s)\<close>;
  \<^item> \<open>ext_to_rdf x g\<close>: \<open>x.to_rdf(g)\<close> for an object of an external class;
  \<^item> \<open>ext_full_uri x g\<close>: \<open>URIRef(x.full_uri(g))\<close>, as the text of the resource;
  \<^item> \<open>Annotatable_to_rdf o g\<close>: \<open>super().to_rdf(g)\<close> of an \<open>Ontology\<close>;
  \<^item> \<open>FunctionalWriter_new\<close>: the writer that \<open>FunctionalWriter()\<close> returns;
  \<^item> \<open>ns_bind gr p u\<close>: \<open>gr.namespace_manager.bind(p, u, True, True)\<close>.
\<close>

record collaborators =
  ext_add :: "pyval \<Rightarrow> pyval \<Rightarrow> error + pyval"
  ext_iri_attr :: "pyval \<Rightarrow> error + pyval"
  obj_str :: "pyval \<Rightarrow> string"
  base_attr :: "string \<Rightarrow> pyval option"
  IRI_new :: "string \<Rightarrow> error + pyval"
  ext_to_rdf :: "pyval \<Rightarrow> graph \<Rightarrow> error + (node option \<times> graph)"
  ext_full_uri :: "pyval \<Rightarrow> graph \<Rightarrow> error + string"
  Annotatable_to_rdf :: "ontology \<Rightarrow> graph \<Rightarrow> error + graph"
  FunctionalWriter_new :: writer
  ns_bind :: "graph \<Rightarrow> string \<Rightarrow> string \<Rightarrow> graph"

subsection \<open>Builtins\<close>

text \<open>\<open>isinstance(x, IRI)\<close>, \<open>isinstance_(x, Axiom)\<close>, \<open>isinstance(x, Import)\<close>,
  \<open>isinstance(x, Ontology)\<close> and \<open>isinstance(x, list)\<close>. The classes of this file and the
  builtins derive from neither \<open>IRI\<close> nor \<open>Axiom\<close>.\<close>

fun isinstance_IRI :: "pyval \<Rightarrow> bool" where
  "isinstance_IRI (Ext i a t s) = i"
| "isinstance_IRI _ = False"

fun isinstance_Axiom :: "pyval \<Rightarrow> bool" where
  "isinstance_Axiom (Ext i a t s) = a"
| "isinstance_Axiom _ = False"

fun isinstance_Import :: "pyval \<Rightarrow> bool" where
  "isinstance_Import (ImportV v) = True"
| "isinstance_Import _ = False"

fun isinstance_Ontology :: "pyval \<Rightarrow> bool" where
  "isinstance_Ontology (OntologyV v) = True"
| "isinstance_Ontology _ = False"

fun isinstance_list :: "pyval \<Rightarrow> bool" where
  "isinstance_list (ListV xs) = True"
| "isinstance_list _ = False"

text \<open>Truth value testing: \<open>None\<close> and the empty list are false, an object of an external
  class decides for itself, and instances of the classes of this file and bound methods are
  true (none of them defines \<open>__bool__\<close> or \<open>__len__\<close>).\<close>

fun py_bool :: "pyval \<Rightarrow> bool" where
  "py_bool NoneV = False"
| "py_bool (Ext i a t s) = t"
| "py_bool (ListV xs) = (xs \<noteq> [])"
| "py_bool _ = True"

text \<open>\<open>str(x)\<close>.\<close>

fun py_str :: "collaborators \<Rightarrow> pyval \<Rightarrow> string" where
  "py_str E NoneV = ''None''"
| "py_str E (Ext i a t s) = s"
| "py_str E x = obj_str E x"

text \<open>Modelled from the spec: attribute access on an \<open>Ontology\<close> runs through the base
  classes of \<open>Ontology\<close>, which are not in this file. By the spec the imports and the axioms
  are list-typed slots: reading one gives the list of the values it holds.\<close>

fun list_slot_get :: "pyval list \<Rightarrow> pyval" where
  "list_slot_get xs = ListV xs"

text \<open>Modelled from the spec: the operator \<open>+\<close> on the value of a list slot belongs to those
  base classes too. By the spec a named field that matches a list slot is concatenated to
  it, the values the slot holds first and the new values after them; only a list is
  concatenated to a list.\<close>

fun list_slot_add :: "pyval list \<Rightarrow> pyval \<Rightarrow> error + pyval" where
  "list_slot_add xs (ListV ys) = Inr (ListV (xs @ ys))"
| "list_slot_add xs v = Inl TypeError"

text \<open>Modelled from the spec: assignment to a list slot runs through the same base classes.
  By the spec the slot is list-typed: a list is stored as it is, nothing else is stored.\<close>

fun list_slot_store :: "pyval \<Rightarrow> error + pyval list" where
  "list_slot_store (ListV xs) = Inr xs"
| "list_slot_store v = Inl TypeError"

text \<open>\<open>a + b\<close>: for a list, the operation above; for an object of an external class, the
  class's own \<open>__add__\<close>; nothing else here supports \<open>+\<close> (reflected addition, \<open>__radd__\<close>,
  is not modelled).\<close>

fun py_add :: "collaborators \<Rightarrow> pyval \<Rightarrow> pyval \<Rightarrow> error + pyval" where
  "py_add E (ListV xs) b = list_slot_add xs b"
| "py_add E (Ext i a t s) b = ext_add E (Ext i a t s) b"
| "py_add E _ _ = Inl TypeError"

section \<open>\<open>Ontology.__init__\<close>\<close>

text \<open>The names \<open>class Ontology\<close> defines besides its fields: \<open>getattr\<close> finds each of them
  on an instance, as a bound method.\<close>

definition Ontology_methods :: "string list" where
  "Ontology_methods =
    [''__init__'', ''annotation'', ''declaration'', ''subClassOf'', ''equivalentClasses'',
     ''subObjectPropertyOf'', ''inverseObjectProperties'', ''functionalObjectProperty'',
     ''inverseFunctionalObjectProperty'', ''objectPropertyDomain'', ''objectPropertyRange'',
     ''imports'', ''to_functional'', ''to_rdf'']"

text \<open>\<open>getattr(self, k, MISSING)\<close>, with \<open>None\<close> for \<open>MISSING\<close>: the instance first, then the
  class, then its bases. The value of a list slot is \<open>list_slot_get\<close> of what it holds.\<close>

definition Ontology_getattr :: "collaborators \<Rightarrow> ontology \<Rightarrow> string \<Rightarrow> pyval option" where
  "Ontology_getattr E self k =
    (if k = ''iri'' then Some (iri self)
     else if k = ''version'' then Some (version self)
     else if k = ''directlyImportsDocuments'' then Some (list_slot_get (directlyImportsDocuments self))
     else if k = ''axioms'' then Some (list_slot_get (axioms self))
     else if k = ''annotations'' then Some (annotations self)
     else case map_of (other_attrs self) k of
        Some v \<Rightarrow> Some v
      | None \<Rightarrow> if k \<in> set Ontology_methods then Some (MethodV k) else base_attr E k)"

text \<open>\<open>setattr(self, k, v)\<close>: plain assignment; a list slot stores what \<open>list_slot_store\<close>
  makes of the value.\<close>

definition Ontology_setattr :: "ontology \<Rightarrow> string \<Rightarrow> pyval \<Rightarrow> error + ontology" where
  "Ontology_setattr self k v =
    (case self of Ontology i ver imps axs anns oth \<Rightarrow>
      if k = ''iri'' then Inr (Ontology v ver imps axs anns oth)
      else if k = ''version'' then Inr (Ontology i v imps axs anns oth)
      else if k = ''directlyImportsDocuments'' then
        (case list_slot_store v of
           Inl e \<Rightarrow> Inl e
         | Inr xs \<Rightarrow> Inr (Ontology i ver xs axs anns oth))
      else if k = ''axioms'' then
        (case list_slot_store v of
           Inl e \<Rightarrow> Inl e
         | Inr xs \<Rightarrow> Inr (Ontology i ver imps xs anns oth))
      else if k = ''annotations'' then Inr (Ontology i ver imps axs v oth)
      else Inr (Ontology i ver imps axs anns ((k, v) # filter (\<lambda>p. fst p \<noteq> k) oth)))"

text \<open>\<open>while args and pred(args[0]): slot.append(args.pop(0))\<close>: returns the slot and what
  is left of \<open>args\<close>.\<close>

fun pop_while :: "(pyval \<Rightarrow> bool) \<Rightarrow> pyval list \<Rightarrow> pyval list \<Rightarrow> pyval list \<times> pyval list" where
  "pop_while pred slot [] = (slot, [])"
| "pop_while pred slot (x # args) =
    (if pred x then pop_while pred (slot @ [x]) args else (slot, x # args))"

text \<open>\<open>if args and isinstance(args[0], IRI) and not isinstance_(args[0], Axiom):
  slot = args.pop(0)\<close>; a slot that is not assigned keeps the class default \<open>None\<close>.\<close>

fun pop_identifier :: "pyval list \<Rightarrow> pyval \<times> pyval list" where
  "pop_identifier [] = (NoneV, [])"
| "pop_identifier (x # args) =
    (if isinstance_IRI x \<and> \<not> isinstance_Axiom x then (x, args) else (NoneV, x # args))"

text \<open>The loop over \<open>kwargs.items()\<close>, in the order the named fields were passed.\<close>

fun apply_kwargs :: "collaborators \<Rightarrow> ontology \<Rightarrow> (string \<times> pyval) list \<Rightarrow> error + ontology" where
  "apply_kwargs E self [] = Inr self"
| "apply_kwargs E self ((k, v) # kwargs) =
    (case Ontology_getattr E self k of
       None \<Rightarrow> Inl (UnknownArgument k)
     | Some cur_v \<Rightarrow>
        if cur_v = NoneV then
          (case Ontology_setattr self k v of
             Inl e \<Rightarrow> Inl e
           | Inr self' \<Rightarrow> apply_kwargs E self' kwargs)
        else if k \<noteq> ''annotations'' then
          (case py_add E cur_v v of
             Inl e \<Rightarrow> Inl e
           | Inr s \<Rightarrow>
              (case Ontology_setattr self k s of
                 Inl e \<Rightarrow> Inl e
               | Inr self' \<Rightarrow> apply_kwargs E self' kwargs))
        else apply_kwargs E self kwargs)"

text \<open>\<open>kwargs.get('annotations', [])\<close>.\<close>

definition kwargs_get_annotations :: "(string \<times> pyval) list \<Rightarrow> pyval" where
  "kwargs_get_annotations kwargs =
    (case map_of kwargs ''annotations'' of Some v \<Rightarrow> v | None \<Rightarrow> ListV [])"

text \<open>The positional part of the constructor: the identifier, the version, the imports, the
  axioms, and the arguments that none of the four steps took.\<close>

definition classify_args ::
  "pyval list \<Rightarrow> pyval \<times> pyval \<times> pyval list \<times> pyval list \<times> pyval list" where
  "classify_args args =
    (let (i, args1) = pop_identifier args;
         (ver, args2) = pop_identifier args1;
         (imps, args3) = pop_while isinstance_Import [] args2;
         (axs, args4) = pop_while isinstance_Axiom [] args3
     in (i, ver, imps, axs, args4))"

text \<open>The constructor. The check for left-over positional arguments is the last statement:
  it is reached only when the loop over the named fields has raised nothing.\<close>

definition Ontology_init ::
  "collaborators \<Rightarrow> pyval list \<Rightarrow> (string \<times> pyval) list \<Rightarrow> error + ontology" where
  "Ontology_init E args kwargs =
    (let (i, ver, imps, axs, args4) = classify_args args in
     (case apply_kwargs E (Ontology i ver imps axs (kwargs_get_annotations kwargs) []) kwargs of
        Inl e \<Rightarrow> Inl e
      | Inr self \<Rightarrow>
         (if args4 \<noteq> [] then Inl (UnrecognizedArguments args4) else Inr self)))"

section \<open>\<open>Import\<close>\<close>

text \<open>The attribute read \<open>x.iri\<close>: a field of \<open>Ontology\<close> and of \<open>Import\<close>; \<open>None\<close>, lists and
  bound methods have no such attribute.\<close>

fun py_getattr_iri :: "collaborators \<Rightarrow> pyval \<Rightarrow> error + pyval" where
  "py_getattr_iri E (OntologyV self) = Inr (iri self)"
| "py_getattr_iri E (ImportV v) = Inr v"
| "py_getattr_iri E (Ext i a t s) = ext_iri_attr E (Ext i a t s)"
| "py_getattr_iri E (PrefixV p) = ext_iri_attr E (PrefixV p)"
| "py_getattr_iri E _ = Inl AttributeError"

text \<open>\<open>Import.ontology_iri\<close> and \<open>Import.to_rdf\<close>, on the value \<open>self.iri\<close> that the
  \<open>Import\<close> wraps. \<open>to_rdf\<close> ignores its graph.\<close>

definition Import_ontology_iri :: "collaborators \<Rightarrow> pyval \<Rightarrow> error + pyval" where
  "Import_ontology_iri E self_iri =
    (if isinstance_IRI self_iri then Inr self_iri else py_getattr_iri E self_iri)"

definition Import_to_rdf :: "collaborators \<Rightarrow> pyval \<Rightarrow> error + node" where
  "Import_to_rdf E self_iri =
    (case Import_ontology_iri E self_iri of
       Inl e \<Rightarrow> Inl e
     | Inr x \<Rightarrow> Inr (URIRef (py_str E x)))"

section \<open>\<open>Ontology\<close>: the \<open>imports\<close> builder and the two renderings\<close>

text \<open>\<open>Ontology.imports\<close>: appends one \<open>Import\<close> and returns \<open>self\<close>.\<close>

definition Ontology_imports :: "collaborators \<Rightarrow> ontology \<Rightarrow> pyval \<Rightarrow> error + ontology" where
  "Ontology_imports E self import_arg =
    (case (case import_arg of
             OntologyV other \<Rightarrow> Inr (iri other)
           | _ \<Rightarrow> IRI_new E (py_str E import_arg)) of
       Inl e \<Rightarrow> Inl e
     | Inr x \<Rightarrow>
        (case self of Ontology i ver imps axs anns oth \<Rightarrow>
           Inr (Ontology i ver (imps @ [ImportV x]) axs anns oth)))"

text \<open>\<open>Ontology.to_functional\<close>. The writer argument is optional.\<close>

definition Ontology_to_functional ::
  "collaborators \<Rightarrow> ontology \<Rightarrow> writer option \<Rightarrow> error + writer" where
  "Ontology_to_functional E self w =
    (if py_bool (version self) \<and> \<not> py_bool (iri self) then Inl (VersionWithoutIRI (version self))
     else
       (let w' = (case w of None \<Rightarrow> FunctionalWriter_new E | Some w0 \<Rightarrow> w0) in
        Inr (w'\<lparr>calls := calls w' @
          [W_func (OntologyV self)
            [W_opt (iri self), W_opt (version self),
             W_br (directlyImportsDocuments self \<noteq> [] \<or> py_bool (annotations self) \<or>
                   axioms self \<noteq> []),
             W_iter (ListV (directlyImportsDocuments self)) False,
             W_iter (annotations self) False,
             W_iter (ListV (axioms self)) False]
            False]\<rparr>)))"

text \<open>Modelled from the spec: the resources \<open>RDF.type\<close>, \<open>OWL.Ontology\<close>, \<open>OWL.versionIRI\<close>
  and \<open>OWL.imports\<close> of \<open>rdflib\<close>.\<close>

definition RDF_type :: node where
  "RDF_type = URIRef ''http://www.w3.org/1999/02/22-rdf-syntax-ns#type''"

definition OWL_Ontology :: node where
  "OWL_Ontology = URIRef ''http://www.w3.org/2002/07/owl#Ontology''"

definition OWL_versionIRI :: node where
  "OWL_versionIRI = URIRef ''http://www.w3.org/2002/07/owl#versionIRI''"

definition OWL_imports :: node where
  "OWL_imports = URIRef ''http://www.w3.org/2002/07/owl#imports''"

text \<open>Modelled from the spec: \<open>g.add((s, p, o))\<close> adds a triple to the sink.\<close>

definition graph_add :: "graph \<Rightarrow> triple \<Rightarrow> graph" where
  "graph_add gr t = gr\<lparr>triples := triples gr @ [t]\<rparr>"

text \<open>Modelled from the spec: \<open>BNode()\<close> generates a new anonymous node, the next unused
  one.\<close>

definition new_BNode :: "graph \<Rightarrow> node \<times> graph" where
  "new_BNode gr = (BNode (next_bnode gr), gr\<lparr>next_bnode := Suc (next_bnode gr)\<rparr>)"

text \<open>\<open>URIRef(x.full_uri(g))\<close>: only objects of external classes have a \<open>full_uri\<close>.\<close>

fun py_full_uri :: "collaborators \<Rightarrow> pyval \<Rightarrow> graph \<Rightarrow> error + string" where
  "py_full_uri E (Ext i a t s) gr = ext_full_uri E (Ext i a t s) gr"
| "py_full_uri E (PrefixV p) gr = ext_full_uri E (PrefixV p) gr"
| "py_full_uri E _ gr = Inl AttributeError"

text \<open>
  \<open>Ontology.to_rdf\<close>, together with the method call \<open>x.to_rdf(g)\<close> that it makes on its
  identifier, its imports and its axioms. The call dispatches on the class of \<open>x\<close>: an
  \<open>Ontology\<close> and an \<open>Import\<close> are rendered by this file, an object of an external class by
  its own class, and \<open>None\<close>, a list or a bound method has no \<open>to_rdf\<close>.
  \<open>g.add\<close> asserts that each component of the triple is a node, so a \<open>to_rdf\<close> that
  returned \<open>None\<close> where a subject or an object is needed ends in \<open>AssertionError\<close>.
  \<open>imports_loop\<close> is \<open>for imp in self.directlyImportsDocuments: g.add((ontology_uri,
  OWL.imports, imp.to_rdf(g)))\<close> and \<open>each_to_rdf\<close> is \<open>for axiom in self.axioms:
  axiom.to_rdf(g)\<close>.
\<close>

function (sequential)
  py_to_rdf :: "collaborators \<Rightarrow> pyval \<Rightarrow> graph \<Rightarrow> error + (node option \<times> graph)"
  and Ontology_to_rdf :: "collaborators \<Rightarrow> ontology \<Rightarrow> graph \<Rightarrow> error + (node \<times> graph)"
  and imports_loop :: "collaborators \<Rightarrow> node \<Rightarrow> pyval list \<Rightarrow> graph \<Rightarrow> error + graph"
  and each_to_rdf :: "collaborators \<Rightarrow> pyval list \<Rightarrow> graph \<Rightarrow> error + graph"
where
  "py_to_rdf E (OntologyV self) gr =
    (case Ontology_to_rdf E self gr of
       Inl e \<Rightarrow> Inl e
     | Inr (subj, gr') \<Rightarrow> Inr (Some subj, gr'))"
| "py_to_rdf E (ImportV v) gr =
    (case Import_to_rdf E v of
       Inl e \<Rightarrow> Inl e
     | Inr n \<Rightarrow> Inr (Some n, gr))"
| "py_to_rdf E (Ext i a t s) gr = ext_to_rdf E (Ext i a t s) gr"
| "py_to_rdf E (PrefixV p) gr = ext_to_rdf E (PrefixV p) gr"
| "py_to_rdf E NoneV gr = Inl AttributeError"
| "py_to_rdf E (ListV xs) gr = Inl AttributeError"
| "py_to_rdf E (MethodV m) gr = Inl AttributeError"
| "Ontology_to_rdf E (Ontology i ver imps axs anns oth) gr =
    (case (if py_bool i then py_to_rdf E i gr
           else (case new_BNode gr of (b, gr') \<Rightarrow> Inr (Some b, gr'))) of
       Inl e \<Rightarrow> Inl e
     | Inr (None, g1) \<Rightarrow> Inl AssertionError
     | Inr (Some ontology_uri, g1) \<Rightarrow>
        (let g2 = graph_add g1 (ontology_uri, RDF_type, OWL_Ontology) in
         (case (if py_bool ver then
                  (case py_full_uri E ver g2 of
                     Inl e \<Rightarrow> Inl e
                   | Inr u \<Rightarrow> Inr (graph_add g2 (ontology_uri, OWL_versionIRI, URIRef u)))
                else Inr g2) of
            Inl e \<Rightarrow> Inl e
          | Inr g3 \<Rightarrow>
             (case imports_loop E ontology_uri imps g3 of
                Inl e \<Rightarrow> Inl e
              | Inr g4 \<Rightarrow>
                 (case each_to_rdf E axs g4 of
                    Inl e \<Rightarrow> Inl e
                  | Inr g5 \<Rightarrow>
                     (case Annotatable_to_rdf E (Ontology i ver imps axs anns oth) g5 of
                        Inl e \<Rightarrow> Inl e
                      | Inr g6 \<Rightarrow> Inr (ontology_uri, g6)))))))"
| "imports_loop E ontology_uri [] gr = Inr gr"
| "imports_loop E ontology_uri (imp # imps) gr =
    (case py_to_rdf E imp gr of
       Inl e \<Rightarrow> Inl e
     | Inr (None, gr') \<Rightarrow> Inl AssertionError
     | Inr (Some n, gr') \<Rightarrow>
        imports_loop E ontology_uri imps (graph_add gr' (ontology_uri, OWL_imports, n)))"
| "each_to_rdf E [] gr = Inr gr"
| "each_to_rdf E (x # xs) gr =
    (case py_to_rdf E x gr of
       Inl e \<Rightarrow> Inl e
     | Inr (r, gr') \<Rightarrow> each_to_rdf E xs gr')"
  by pat_completeness auto
termination
  by (relation "measure (\<lambda>c. case c of
        Inl (Inl (E, x, gr)) \<Rightarrow> size x
      | Inl (Inr (E, self, gr)) \<Rightarrow> size self
      | Inr (Inl (E, s, xs, gr)) \<Rightarrow> size_list size xs
      | Inr (Inr (E, xs, gr)) \<Rightarrow> size_list size xs)") auto

section \<open>\<open>OntologyDocument\<close>\<close>

text \<open>A document has its two dataclass fields; \<open>private_attrs\<close> holds the attributes whose
  names start with an underscore.\<close>

record ontology_document =
  prefixDeclarations :: pyval
  ontology :: pyval
  private_attrs :: "(string \<times> pyval) list"

text \<open>\<open>OntologyDocument.__init__(*prefix, ontology=None)\<close>. Both assignments are to reserved
  names, which \<open>__setattr__\<close> stores as fields.\<close>

definition OntologyDocument_init ::
  "collaborators \<Rightarrow> pyval list \<Rightarrow> pyval \<Rightarrow> error + ontology_document" where
  "OntologyDocument_init E prefix ontology_kw =
    (if length prefix = 1 \<and> isinstance_list (hd prefix) then
       Inr \<lparr>prefixDeclarations = hd prefix, ontology = ontology_kw, private_attrs = []\<rparr>
     else if prefix \<noteq> [] \<and> isinstance_Ontology (last prefix) then
       Inr \<lparr>prefixDeclarations = ListV (butlast prefix), ontology = last prefix,
            private_attrs = []\<rparr>
     else if py_bool ontology_kw then
       Inr \<lparr>prefixDeclarations = ListV prefix, ontology = ontology_kw, private_attrs = []\<rparr>
     else
       (case Ontology_init E [] [] of
          Inl e \<Rightarrow> Inl e
        | Inr fresh \<Rightarrow>
           Inr \<lparr>prefixDeclarations = ListV prefix, ontology = OntologyV fresh,
                private_attrs = []\<rparr>))"

text \<open>\<open>super().__setattr__(key, value)\<close>: plain attribute assignment.\<close>

definition field_assign :: "ontology_document \<Rightarrow> string \<Rightarrow> pyval \<Rightarrow> ontology_document" where
  "field_assign self key v =
    (if key = ''prefixDeclarations'' then self\<lparr>prefixDeclarations := v\<rparr>
     else if key = ''ontology'' then self\<lparr>ontology := v\<rparr>
     else self\<lparr>private_attrs := (key, v) # filter (\<lambda>p. fst p \<noteq> key) (private_attrs self)\<rparr>)"

text \<open>\<open>key.startswith('_')\<close>.\<close>

definition startswith_underscore :: "string \<Rightarrow> bool" where
  "startswith_underscore key = (case key of [] \<Rightarrow> False | c # cs \<Rightarrow> c = CHR ''_'')"

text \<open>\<open>OntologyDocument.__setattr__\<close>. Of the values a document can hold in
  \<open>prefixDeclarations\<close> only a list has \<open>append\<close>.\<close>

definition OntologyDocument_setattr ::
  "ontology_document \<Rightarrow> string \<Rightarrow> pyval \<Rightarrow> error + ontology_document" where
  "OntologyDocument_setattr self key v =
    (if startswith_underscore key \<or> key \<in> set [''prefixDeclarations'', ''ontology''] then
       Inr (field_assign self key v)
     else
       (let prefix = PrefixV (Prefix (if key \<noteq> [] then Some key else None) v) in
        (case prefixDeclarations self of
           ListV xs \<Rightarrow> Inr (self\<lparr>prefixDeclarations := ListV (xs @ [prefix])\<rparr>)
         | _ \<Rightarrow> Inl AttributeError)))"

text \<open>The loop \<open>for prefix in self.prefixDeclarations: w.g.namespace_manager.bind(
  str(prefix.prefixName), str(prefix.fullIRI), True, True)\<close>. Only a \<open>Prefix\<close> has the two
  attributes; \<open>str(None)\<close> is \<open>'None'\<close>.\<close>

fun bind_prefixes :: "collaborators \<Rightarrow> pyval list \<Rightarrow> graph \<Rightarrow> error + graph" where
  "bind_prefixes E [] gr = Inr gr"
| "bind_prefixes E (PrefixV p # ps) gr =
    bind_prefixes E ps
      (ns_bind E gr (case prefixName p of None \<Rightarrow> ''None'' | Some name \<Rightarrow> name)
         (py_str E (fullIRI p)))"
| "bind_prefixes E (x # ps) gr = Inl AttributeError"

text \<open>\<open>OntologyDocument.to_functional\<close>. Iterating over a value that is not a list raises
  \<open>TypeError\<close>. The last call hands the writer \<open>self.ontology or Ontology()\<close>.\<close>

definition OntologyDocument_to_functional ::
  "collaborators \<Rightarrow> ontology_document \<Rightarrow> writer option \<Rightarrow> error + writer" where
  "OntologyDocument_to_functional E self w =
    (let w' = (case w of None \<Rightarrow> FunctionalWriter_new E | Some w0 \<Rightarrow> w0) in
     (case prefixDeclarations self of
        ListV ps \<Rightarrow>
          (case bind_prefixes E ps (w_g w') of
             Inl e \<Rightarrow> Inl e
           | Inr gr \<Rightarrow>
              (case (if py_bool (ontology self) then Inr (ontology self)
                     else (case Ontology_init E [] [] of
                             Inl e \<Rightarrow> Inl e
                           | Inr fresh \<Rightarrow> Inr (OntologyV fresh))) of
                 Inl e \<Rightarrow> Inl e
               | Inr x \<Rightarrow>
                  Inr \<lparr>calls = calls w' @
                         [W_iter (ListV (map (\<lambda>(ns, uri). PrefixV (Prefix (Some ns) uri))
                                           (namespaces gr)))
                            False,
                          W_hardbr, W_add x],
                       w_g = gr\<rparr>))
      | _ \<Rightarrow> Inl TypeError))"

text \<open>\<open>OntologyDocument.to_rdf\<close>: no substitute for a missing ontology here.\<close>

definition OntologyDocument_to_rdf ::
  "collaborators \<Rightarrow> ontology_document \<Rightarrow> graph \<Rightarrow> error + (node option \<times> graph)" where
  "OntologyDocument_to_rdf E self gr =
    (case prefixDeclarations self of
       ListV ps \<Rightarrow>
         (case each_to_rdf E ps gr of
            Inl e \<Rightarrow> Inl e
          | Inr gr' \<Rightarrow> py_to_rdf E (ontology self) gr')
     | _ \<Rightarrow> Inl TypeError)"


section \<open>Specification vocabulary\<close>




text \<open>\<open>Ontology()\<close>: the empty, anonymous aggregate; and \<open>Ontology(version=v)\<close>.\<close>

definition empty_Ontology :: ontology where
  "empty_Ontology = Ontology NoneV NoneV [] [] (ListV []) []"

definition version_only :: "pyval \<Rightarrow> ontology" where
  "version_only v = Ontology NoneV v [] [] (ListV []) []"



text \<open>Renaming of anonymous nodes: every node number moves up by \<open>d\<close>, named resources stay.
  The renaming of a graph renames its triples and moves its supply of unused numbers.\<close>

fun shift_node :: "nat \<Rightarrow> node \<Rightarrow> node" where
  "shift_node d (BNode n) = BNode (n + d)"
| "shift_node d (URIRef s) = URIRef s"

definition shift_triple :: "nat \<Rightarrow> triple \<Rightarrow> triple" where
  "shift_triple d t = (case t of (s, p, ob) \<Rightarrow> (shift_node d s, shift_node d p, shift_node d ob))"

definition shift_graph :: "nat \<Rightarrow> graph \<Rightarrow> graph" where
  "shift_graph d gr =
    gr\<lparr>triples := map (shift_triple d) (triples gr), next_bnode := next_bnode gr + d\<rparr>"

text \<open>The renaming, on what a rendering returns.\<close>

fun shift_graph_result :: "nat \<Rightarrow> error + graph \<Rightarrow> error + graph" where
  "shift_graph_result d (Inl e) = Inl e"
| "shift_graph_result d (Inr gr) = Inr (shift_graph d gr)"

fun shift_node_result :: "nat \<Rightarrow> error + (node \<times> graph) \<Rightarrow> error + (node \<times> graph)" where
  "shift_node_result d (Inl e) = Inl e"
| "shift_node_result d (Inr (n, gr)) = Inr (shift_node d n, shift_graph d gr)"

fun shift_opt_result ::
  "nat \<Rightarrow> error + (node option \<times> graph) \<Rightarrow> error + (node option \<times> graph)" where
  "shift_opt_result d (Inl e) = Inl e"
| "shift_opt_result d (Inr (n, gr)) = Inr (map_option (shift_node d) n, shift_graph d gr)"

text \<open>Collaborators that treat anonymous nodes alike whatever their numbers: rendering into
  a renamed graph gives the renamed result.\<close>

definition renaming_invariant :: "collaborators \<Rightarrow> bool" where
  "renaming_invariant E =
    ((\<forall>x gr d. ext_to_rdf E x (shift_graph d gr) = shift_opt_result d (ext_to_rdf E x gr)) \<and>
     (\<forall>x gr d. ext_full_uri E x (shift_graph d gr) = ext_full_uri E x gr) \<and>
     (\<forall>self gr d. Annotatable_to_rdf E self (shift_graph d gr) =
        shift_graph_result d (Annotatable_to_rdf E self gr)))"

text \<open>A new graph: no triple yet, the default namespaces \<open>ns\<close>; \<open>n\<close> anonymous nodes have
  been drawn so far.\<close>

definition fresh_graph :: "(string \<times> pyval) list \<Rightarrow> nat \<Rightarrow> graph" where
  "fresh_graph ns n = \<lparr>triples = [], namespaces = ns, next_bnode = n\<rparr>"



text \<open>A sample set of collaborators, on which the model is evaluated at concrete inputs:
  external objects support neither \<open>+\<close> nor \<open>.iri\<close>, the base classes contribute no
  attribute, \<open>IRI(s)\<close> is an identifier whose text is \<open>s\<close>, an identifier's resource is
  its text, annotations emit nothing, and a new writer is empty.\<close>

fun ext_text :: "pyval \<Rightarrow> string" where
  "ext_text (Ext i a t s) = s"
| "ext_text _ = []"

definition empty_graph :: graph where
  "empty_graph = \<lparr>triples = [], namespaces = [], next_bnode = 0\<rparr>"

definition E0 :: collaborators where
  "E0 = \<lparr>ext_add = (\<lambda>a b. Inl TypeError),
          ext_iri_attr = (\<lambda>x. Inl AttributeError),
          obj_str = (\<lambda>x. ''<object>''),
          base_attr = (\<lambda>k. None),
          IRI_new = (\<lambda>s. Inr (Ext True False True s)),
          ext_to_rdf = (\<lambda>x gr. Inr (Some (URIRef (ext_text x)), gr)),
          ext_full_uri = (\<lambda>x gr. Inr (ext_text x)),
          Annotatable_to_rdf = (\<lambda>self gr. Inr gr),
          FunctionalWriter_new = \<lparr>calls = [], w_g = empty_graph\<rparr>,
          ns_bind = (\<lambda>gr p u. gr\<lparr>namespaces :=
            filter (\<lambda>q. fst q \<noteq> p) (namespaces gr) @ [(p, Ext False False True u)]\<rparr>)\<rparr>"



text \<open>Sample values: two identifiers, an import, two axioms.\<close>

definition iri_o :: pyval where
  "iri_o = Ext True False True ''http://x/o''"

definition iri_v :: pyval where
  "iri_v = Ext True False True ''http://x/o/1.0''"






definition doc_0 :: ontology_document where
  "doc_0 = \<lparr>prefixDeclarations = ListV [], ontology = NoneV, private_attrs = []\<rparr>"

section \<open>Properties of the constructor\<close>


























text \<open>A named field under a name that is no attribute of the aggregate at all is rejected
  with the error for an unknown argument.\<close>

lemma Ontology_init_unknown_name:
  assumes "k \<notin> set [''iri'', ''version'', ''directlyImportsDocuments'', ''axioms'', ''annotations'']"
    and "k \<notin> set Ontology_methods"
    and "base_attr E k = None"
  shows "Ontology_init E [] [(k, v)] = Inl (UnknownArgument k)"
proof -
  have "Ontology_getattr E (Ontology NoneV NoneV [] [] (kwargs_get_annotations [(k, v)]) []) k = None"
    using assms by (simp add: Ontology_getattr_def)
  then show ?thesis
    by (simp add: Ontology_init_def classify_args_def)
qed

text \<open>
  Claim C6, at the input where the code departs from it: \<open>Ontology(imports=[...])\<close>. The
  claim has a named field that is not a declared slot fail with
  \<open>ValueError("Unknown argument to Ontology: ...")\<close>. The name of a method of the class is
  not a declared slot, yet \<open>getattr\<close> finds the bound method, the constructor goes on to add
  the value to it, and the call ends in \<open>TypeError\<close>.
\<close>

theorem Ontology_init_method_name:
  "Ontology_init E [] [(''imports'', ListV xs)] = Inl TypeError"
  by (simp add: Ontology_init_def classify_args_def Ontology_getattr_def
      kwargs_get_annotations_def Ontology_methods_def)


section \<open>Properties of \<open>Import\<close> and of the \<open>imports\<close> builder\<close>

lemma Ontology_init_empty: "Ontology_init E [] [] = Inr empty_Ontology"
  by (simp add: Ontology_init_def classify_args_def kwargs_get_annotations_def empty_Ontology_def)

text \<open>An import that wraps an identifier resolves to the resource whose text is the
  identifier's string form.\<close>

lemma Import_to_rdf_identifier:
  assumes "isinstance_IRI x"
  shows "Import_to_rdf E x = Inr (URIRef (str_form x))"
  using assms by (cases x) (simp_all add: Import_to_rdf_def Import_ontology_iri_def)

text \<open>
  Claim C3, at the input where the code departs from it: the import of the empty aggregate
  \<open>Ontology()\<close>. The claim has \<open>to_rdf\<close> raise the error for a missing identifier.
  \<open>ontology_iri\<close>, declared to return an identifier, returns the \<open>None\<close> of the empty
  identifier slot, and \<open>to_rdf\<close> returns a resource made of the string form of \<open>None\<close>;
  nothing is raised. The import of the identifier \<open>iri_o\<close> resolves to the resource of that
  identifier, as the claim says.
\<close>

theorem Import_to_rdf_anonymous:
  "Ontology_init E [] [] = Inr empty_Ontology \<and>
   Import_ontology_iri E (OntologyV empty_Ontology) = Inr NoneV \<and>
   Import_to_rdf E (OntologyV empty_Ontology) = Inr (URIRef ''None'') \<and>
   Import_to_rdf E iri_o = Inr (URIRef ''http://x/o'')"
  by (simp add: Ontology_init_empty)
    (simp add: empty_Ontology_def Import_to_rdf_def Import_ontology_iri_def iri_o_def)

lemma size_iri_less: "size (iri other) < size (OntologyV other)"
  by (cases other) simp

text \<open>
  Claim C10. Called with an aggregate, \<open>imports\<close> appends the one import that wraps the value
  of that aggregate's identifier slot, whatever it is (also \<open>None\<close>), which is not the import
  that wraps the aggregate. Called with anything else, it appends the one import that wraps
  the identifier \<open>IRI\<close> builds from the argument's string form, provided that constructor
  returns. In both cases the aggregate is returned, with nothing else changed.
\<close>

theorem Ontology_imports_appends:
  "Ontology_imports E self (OntologyV other) =
     Inr (Ontology (iri self) (version self) (directlyImportsDocuments self @ [ImportV (iri other)])
            (axioms self) (annotations self) (other_attrs self)) \<and>
   ImportV (iri other) \<noteq> ImportV (OntologyV other) \<and>
   (\<not> isinstance_Ontology x \<longrightarrow> IRI_new E (py_str E x) = Inr new_iri \<longrightarrow>
      Ontology_imports E self x =
        Inr (Ontology (iri self) (version self) (directlyImportsDocuments self @ [ImportV new_iri])
               (axioms self) (annotations self) (other_attrs self)))"
proof (intro conjI impI)
  show "Ontology_imports E self (OntologyV other) =
     Inr (Ontology (iri self) (version self) (directlyImportsDocuments self @ [ImportV (iri other)])
            (axioms self) (annotations self) (other_attrs self))"
    by (cases self) (simp add: Ontology_imports_def)
  show "ImportV (iri other) \<noteq> ImportV (OntologyV other)"
    using size_iri_less [of other] by auto
  assume "\<not> isinstance_Ontology x" "IRI_new E (py_str E x) = Inr new_iri"
  then show "Ontology_imports E self x =
        Inr (Ontology (iri self) (version self) (directlyImportsDocuments self @ [ImportV new_iri])
               (axioms self) (annotations self) (other_attrs self))"
    by (cases self; cases x) (simp_all add: Ontology_imports_def)
qed

text \<open>
  Claim C10 at concrete inputs: \<open>Ontology().imports(Ontology())\<close> and
  \<open>Ontology().imports('http://x/i')\<close>.
\<close>

theorem Ontology_imports_appends_witness:
  "Ontology_imports E0 empty_Ontology (OntologyV empty_Ontology) =
     Inr (Ontology NoneV NoneV [ImportV NoneV] [] (ListV []) []) \<and>
   Ontology_imports E0 empty_Ontology (Ext False False True ''http://x/i'') =
     Inr (Ontology NoneV NoneV [ImportV (Ext True False True ''http://x/i'')] [] (ListV []) [])"
  using Ontology_imports_appends [of E0 empty_Ontology empty_Ontology
      "Ext False False True ''http://x/i''" "Ext True False True ''http://x/i''"]
  by (simp add: empty_Ontology_def E0_def)

section \<open>Properties of \<open>OntologyDocument\<close>\<close>

text \<open>
  Claim C7, as amended. Assigning to an attribute of a document is a plain field assignment
  when the name is \<open>prefixDeclarations\<close> or \<open>ontology\<close> or starts with an underscore, and
  such an assignment leaves the prefix list alone unless it is the one to
  \<open>prefixDeclarations\<close>. Under any other name the assignment sets no field: it appends to the
  prefix list the entry whose short name is the attribute name (no short name for the empty
  name) and whose full identifier is the assigned value.
\<close>

theorem OntologyDocument_setattr_prefix:
  "(startswith_underscore key \<or> key = ''prefixDeclarations'' \<or> key = ''ontology'' \<longrightarrow>
      OntologyDocument_setattr self key v = Inr (field_assign self key v)) \<and>
   (key \<noteq> ''prefixDeclarations'' \<longrightarrow>
      prefixDeclarations (field_assign self key v) = prefixDeclarations self) \<and>
   (\<not> startswith_underscore key \<longrightarrow> key \<noteq> ''prefixDeclarations'' \<longrightarrow> key \<noteq> ''ontology'' \<longrightarrow>
    prefixDeclarations self = ListV ps \<longrightarrow>
      OntologyDocument_setattr self key v =
        Inr (self\<lparr>prefixDeclarations :=
               ListV (ps @ [PrefixV (Prefix (if key = [] then None else Some key) v)])\<rparr>))"
  by (simp add: OntologyDocument_setattr_def field_assign_def)

text \<open>
  Claim C7 as stated fails: assigning to \<open>_base\<close>, which is not one of the two reserved
  names, sets an attribute and appends no prefix entry.
\<close>

theorem OntologyDocument_setattr_prefix_counterexample:
  "OntologyDocument_setattr doc_0 ''_base'' iri_o =
     Inr \<lparr>prefixDeclarations = ListV [], ontology = NoneV, private_attrs = [(''_base'', iri_o)]\<rparr>"
  by (simp add: OntologyDocument_setattr_def field_assign_def doc_0_def startswith_underscore_def)

text \<open>
  Claim C7, as amended, at concrete inputs: one assignment of each kind on the empty document.
\<close>

theorem OntologyDocument_setattr_prefix_witness:
  "OntologyDocument_setattr doc_0 ''ontology'' (OntologyV empty_Ontology) =
     Inr \<lparr>prefixDeclarations = ListV [], ontology = OntologyV empty_Ontology, private_attrs = []\<rparr> \<and>
   OntologyDocument_setattr doc_0 ''_base'' iri_o =
     Inr \<lparr>prefixDeclarations = ListV [], ontology = NoneV, private_attrs = [(''_base'', iri_o)]\<rparr> \<and>
   OntologyDocument_setattr doc_0 ''ex'' iri_o =
     Inr \<lparr>prefixDeclarations = ListV [PrefixV (Prefix (Some ''ex'') iri_o)], ontology = NoneV,
          private_attrs = []\<rparr>"
  using OntologyDocument_setattr_prefix [of "''ontology''" doc_0 "OntologyV empty_Ontology" "[]"]
    OntologyDocument_setattr_prefix [of "''_base''" doc_0 iri_o "[]"]
    OntologyDocument_setattr_prefix [of "''ex''" doc_0 iri_o "[]"]
  by (simp add: doc_0_def field_assign_def startswith_underscore_def)

text \<open>
  Claim C9. A document built from one positional list and no \<open>ontology\<close> keeps the list
  and has \<open>None\<close> in its ontology slot. Rendering a document without ontology in functional
  syntax is rendering it with the empty aggregate \<open>Ontology()\<close> in the slot. Rendering it as
  RDF never returns: when the prefixes are rendered without error, the call on the missing
  ontology raises \<open>AttributeError\<close>.
\<close>

theorem OntologyDocument_missing_ontology:
  "(isinstance_list p \<longrightarrow>
      OntologyDocument_init E [p] NoneV =
        Inr \<lparr>prefixDeclarations = p, ontology = NoneV, private_attrs = []\<rparr>) \<and>
   (ontology self = NoneV \<longrightarrow>
      Ontology_init E [] [] = Inr empty_Ontology \<and>
      OntologyDocument_to_functional E self w =
        OntologyDocument_to_functional E (self\<lparr>ontology := OntologyV empty_Ontology\<rparr>) w \<and>
      (\<forall>r. OntologyDocument_to_rdf E self gr \<noteq> Inr r) \<and>
      (\<forall>ps gr'. prefixDeclarations self = ListV ps \<longrightarrow> each_to_rdf E ps gr = Inr gr' \<longrightarrow>
         OntologyDocument_to_rdf E self gr = Inl AttributeError))"
proof (intro conjI impI allI)
  show "OntologyDocument_init E [p] NoneV =
        Inr \<lparr>prefixDeclarations = p, ontology = NoneV, private_attrs = []\<rparr>" if "isinstance_list p"
    using that by (simp add: OntologyDocument_init_def)
next
  show "Ontology_init E [] [] = Inr empty_Ontology" by (rule Ontology_init_empty)
next
  assume "ontology self = NoneV"
  then show "OntologyDocument_to_functional E self w =
        OntologyDocument_to_functional E (self\<lparr>ontology := OntologyV empty_Ontology\<rparr>) w"
    by (simp add: OntologyDocument_to_functional_def Ontology_init_empty Let_def split: pyval.split sum.split)
next
  fix r assume "ontology self = NoneV"
  then show "OntologyDocument_to_rdf E self gr \<noteq> Inr r"
    by (simp add: OntologyDocument_to_rdf_def split: pyval.split sum.split)
next
  fix ps gr'
  assume "ontology self = NoneV" "prefixDeclarations self = ListV ps" "each_to_rdf E ps gr = Inr gr'"
  then show "OntologyDocument_to_rdf E self gr = Inl AttributeError"
    by (simp add: OntologyDocument_to_rdf_def)
qed


text \<open>
  Claim C9 at a concrete input: the document \<open>OntologyDocument([])\<close>.
\<close>

theorem OntologyDocument_missing_ontology_witness:
  "isinstance_list (ListV []) \<and>
   OntologyDocument_init E0 [ListV []] NoneV = Inr doc_0 \<and>
   OntologyDocument_to_functional E0 doc_0 None =
     Inr \<lparr>calls = [W_iter (ListV []) False, W_hardbr, W_add (OntologyV empty_Ontology)],
          w_g = empty_graph\<rparr> \<and>
   OntologyDocument_to_rdf E0 doc_0 empty_graph = Inl AttributeError"
  using OntologyDocument_missing_ontology [of "ListV []" E0 doc_0 None empty_graph]
  by (simp add: doc_0_def OntologyDocument_to_functional_def E0_def empty_graph_def)


section \<open>Properties of the two renderings\<close>



lemma Ontology_to_rdf_anonymous_subject:
  assumes "\<not> py_bool (iri self)" and "Ontology_to_rdf E self gr = Inr (s, g')"
  shows "s = BNode (next_bnode gr)"
proof -
  obtain i ver imps axs anns oth where self: "self = Ontology i ver imps axs anns oth"
    by (cases self)
  show ?thesis
    using assms unfolding self
    by (simp add: new_BNode_def Let_def split: sum.splits if_splits)
qed








lemma shift_graph_add:
  "graph_add (shift_graph d gr) (shift_triple d t) = shift_graph d (graph_add gr t)"
  by (simp add: graph_add_def shift_graph_def)

lemma shift_new_BNode:
  "new_BNode (shift_graph d gr) = (shift_node d (fst (new_BNode gr)), shift_graph d (snd (new_BNode gr)))"
  by (simp add: new_BNode_def shift_graph_def)

lemma shift_triple_simps:
  "(shift_node d s, RDF_type, OWL_Ontology) = shift_triple d (s, RDF_type, OWL_Ontology)"
  "(shift_node d s, OWL_versionIRI, URIRef u) = shift_triple d (s, OWL_versionIRI, URIRef u)"
  "(shift_node d s, OWL_imports, shift_node d n) = shift_triple d (s, OWL_imports, n)"
  by (simp_all add: shift_triple_def RDF_type_def OWL_Ontology_def OWL_versionIRI_def OWL_imports_def)

lemma py_full_uri_shift:
  "renaming_invariant E \<Longrightarrow> py_full_uri E x (shift_graph d gr) = py_full_uri E x gr"
  by (cases x) (simp_all add: renaming_invariant_def)

lemma Import_to_rdf_URIRef: "Import_to_rdf E v = Inr n \<Longrightarrow> shift_node d n = n"
  by (auto simp: Import_to_rdf_def split: sum.splits)

lemma shift_commute:
  "renaming_invariant E \<Longrightarrow> py_to_rdf E x (shift_graph d gr') = shift_opt_result d (py_to_rdf E x gr')"
  "renaming_invariant E \<Longrightarrow> Ontology_to_rdf E self (shift_graph d gr) = shift_node_result d (Ontology_to_rdf E self gr)"
  "renaming_invariant E \<Longrightarrow> imports_loop E (shift_node d subj) imps (shift_graph d gr'') =
     shift_graph_result d (imports_loop E subj imps gr'')"
  "renaming_invariant E \<Longrightarrow> each_to_rdf E xs (shift_graph d gr''') = shift_graph_result d (each_to_rdf E xs gr''')"
proof (induction E x gr' and E self gr and E subj imps gr'' and E xs gr'''
    rule: py_to_rdf_Ontology_to_rdf_imports_loop_each_to_rdf.induct)
  case (1 E self gr)
  then show ?case by (auto split: sum.splits)
next
  case (2 E v gr)
  then show ?case by (auto split: sum.splits simp: Import_to_rdf_URIRef)
next
  case (3 E i a t s gr)
  then show ?case by (simp add: renaming_invariant_def)
next
  case (4 E p gr)
  then show ?case by (simp add: renaming_invariant_def)
next
  case (5 E gr)
  then show ?case by auto
next
  case (6 E xs gr)
  then show ?case by auto
next
  case (7 E m gr)
  then show ?case by auto
next
  case (8 E i ver imps axs anns oth gr)
  note inv = \<open>renaming_invariant E\<close>
  let ?self = "Ontology i ver imps axs anns oth"
  let ?R = "\<lambda>gr. if py_bool i then py_to_rdf E i gr
           else (case new_BNode gr of (b, gr') \<Rightarrow> Inr (Some b, gr'))"
  let ?V = "\<lambda>s g2. if py_bool ver then
                  (case py_full_uri E ver g2 of
                     Inl e \<Rightarrow> Inl e
                   | Inr u \<Rightarrow> Inr (graph_add g2 (s, OWL_versionIRI, URIRef u)))
                else Inr g2"
  have first: "?R (shift_graph d gr) = shift_opt_result d (?R gr)"
  proof (cases "py_bool i")
    case True
    then show ?thesis using "8.IH"(1)[OF True inv] by simp
  next
    case False
    then show ?thesis by (simp add: new_BNode_def shift_graph_def)
  qed
  show ?case
  proof (cases "?R gr")
    case (Inl e)
    then show ?thesis using first by simp
  next
    case (Inr r)
    obtain n g1 where r: "r = (n, g1)" by (cases r)
    show ?thesis
    proof (cases n)
      case None
      then show ?thesis using Inr r first by simp
    next
      case (Some s)
      let ?g2 = "graph_add g1 (s, RDF_type, OWL_Ontology)"
      let ?g2' = "graph_add (shift_graph d g1) (shift_node d s, RDF_type, OWL_Ontology)"
      have R: "?R gr = Inr (Some s, g1)" using Inr r Some by simp
      have R': "?R (shift_graph d gr) = Inr (Some (shift_node d s), shift_graph d g1)"
        using first R by simp
      have g2: "?g2' = shift_graph d ?g2"
        by (simp add: shift_triple_simps shift_graph_add)
      have V: "?V (shift_node d s) ?g2' = shift_graph_result d (?V s ?g2)"
        unfolding g2 using py_full_uri_shift[OF inv, of ver d ?g2]
        by (simp add: shift_triple_simps shift_graph_add split: sum.split)
      show ?thesis
      proof (cases "?V s ?g2")
        case (Inl e)
        then have "?V (shift_node d s) ?g2' = Inl e" using V by simp
        then show ?thesis using Inl R R' by (simp add: Let_def)
      next
        case g3: (Inr g3)
        then have V': "?V (shift_node d s) ?g2' = Inr (shift_graph d g3)" using V by simp
        have L: "imports_loop E (shift_node d s) imps (shift_graph d g3) =
                 shift_graph_result d (imports_loop E s imps g3)"
          using R g3 inv by (intro "8.IH"(2)) auto
        show ?thesis
        proof (cases "imports_loop E s imps g3")
          case (Inl e)
          then show ?thesis using R R' g3 V' L by (simp add: Let_def)
        next
          case g4: (Inr g4)
          have A: "each_to_rdf E axs (shift_graph d g4) = shift_graph_result d (each_to_rdf E axs g4)"
            using R g3 g4 inv by (intro "8.IH"(3)) auto
          show ?thesis
          proof (cases "each_to_rdf E axs g4")
            case (Inl e)
            then show ?thesis using R R' g3 V' L g4 A by (simp add: Let_def)
          next
            case g5: (Inr g5)
            have N: "Annotatable_to_rdf E ?self (shift_graph d g5) =
                     shift_graph_result d (Annotatable_to_rdf E ?self g5)"
              using inv by (simp add: renaming_invariant_def)
            show ?thesis
            proof (cases "Annotatable_to_rdf E ?self g5")
              case (Inl e)
              then show ?thesis using R R' g3 V' L g4 A g5 N by (simp add: Let_def)
            next
              case (Inr g6)
              then show ?thesis using R R' g3 V' L g4 A g5 N by (simp add: Let_def)
            qed
          qed
        qed
      qed
    qed
  qed
next
  case (9 E ontology_uri gr)
  then show ?case by auto
next
  case (10 E ontology_uri imp imps gr)
  note inv = \<open>renaming_invariant E\<close>
  show ?case
  proof (cases "py_to_rdf E imp gr")
    case (Inl e)
    then show ?thesis using "10.IH"(1)[OF inv] by simp
  next
    case (Inr r)
    obtain n g1 where r: "r = (n, g1)" by (cases r)
    show ?thesis
    proof (cases n)
      case None
      then show ?thesis using Inr r "10.IH"(1)[OF inv] by simp
    next
      case (Some m)
      have "imports_loop E (shift_node d ontology_uri) imps
              (shift_graph d (graph_add g1 (ontology_uri, OWL_imports, m))) =
            shift_graph_result d (imports_loop E ontology_uri imps
              (graph_add g1 (ontology_uri, OWL_imports, m)))"
        using Inr r Some inv by (intro "10.IH"(2)) auto
      then show ?thesis using Inr r Some "10.IH"(1)[OF inv]
        by (simp add: shift_triple_simps shift_graph_add)
    qed
  qed
next
  case (11 E gr)
  then show ?case by auto
next
  case (12 E x xs gr)
  note inv = \<open>renaming_invariant E\<close>
  show ?case
  proof (cases "py_to_rdf E x gr")
    case (Inl e)
    then show ?thesis using "12.IH"(1)[OF inv] by simp
  next
    case (Inr r)
    obtain n g1 where r: "r = (n, g1)" by (cases r)
    have "each_to_rdf E xs (shift_graph d g1) = shift_graph_result d (each_to_rdf E xs g1)"
      using Inr r inv by (intro "12.IH"(2)) auto
    then show ?thesis using Inr r "12.IH"(1)[OF inv] by simp
  qed
qed


lemma inj_shift_node: "inj (shift_node d)"
proof (rule injI)
  fix a b assume "shift_node d a = shift_node d b"
  then show "a = b" by (cases a; cases b) simp_all
qed

lemma inj_shift_triple: "inj (shift_triple d)"
proof (rule injI)
  fix a b :: triple assume "shift_triple d a = shift_triple d b"
  then show "a = b"
    by (cases a; cases b) (simp add: shift_triple_def inj_eq[OF inj_shift_node])
qed

lemma shift_fresh_graph: "shift_graph d (fresh_graph ns n) = fresh_graph ns (n + d)"
  by (simp add: shift_graph_def fresh_graph_def)

text \<open>
  Claim C8. Neither rendering assigns to the aggregate, so a second pass renders the same
  aggregate. In functional syntax a pass that is given no writer and a pass that is given a
  new writer leave the same writer behind: the same calls, hence the same text. As RDF, with
  collaborators that treat anonymous nodes alike whatever their numbers, a pass into a new
  graph after \<open>d\<close> more anonymous nodes have been drawn returns the result of the first pass
  with every anonymous node renamed, and fails when the first pass fails: the two sets of
  triples are equal up to that renaming, which is one-to-one.
\<close>

theorem Ontology_render_twice:
  assumes "renaming_invariant E"
  shows "Ontology_to_functional E self None =
      Ontology_to_functional E self (Some (FunctionalWriter_new E)) \<and>
    Ontology_to_rdf E self (fresh_graph ns (n + d)) =
      shift_node_result d (Ontology_to_rdf E self (fresh_graph ns n)) \<and>
    (\<forall>s1 g1. Ontology_to_rdf E self (fresh_graph ns n) = Inr (s1, g1) \<longrightarrow>
       (\<exists>g2. Ontology_to_rdf E self (fresh_graph ns (n + d)) = Inr (shift_node d s1, g2) \<and>
             set (triples g2) = shift_triple d ` set (triples g1))) \<and>
    inj (shift_triple d)"
proof (intro conjI allI impI)
  show "Ontology_to_functional E self None =
      Ontology_to_functional E self (Some (FunctionalWriter_new E))"
    by (simp add: Ontology_to_functional_def)
  show eq: "Ontology_to_rdf E self (fresh_graph ns (n + d)) =
      shift_node_result d (Ontology_to_rdf E self (fresh_graph ns n))"
    using shift_commute(2)[OF assms, of self d "fresh_graph ns n"]
    by (simp add: shift_fresh_graph)
  show "inj (shift_triple d)" by (rule inj_shift_triple)
  fix s1 g1
  assume "Ontology_to_rdf E self (fresh_graph ns n) = Inr (s1, g1)"
  then have "Ontology_to_rdf E self (fresh_graph ns (n + d)) = Inr (shift_node d s1, shift_graph d g1)"
    using eq by simp
  moreover have "set (triples (shift_graph d g1)) = shift_triple d ` set (triples g1)"
    by (simp add: shift_graph_def)
  ultimately show "\<exists>g2. Ontology_to_rdf E self (fresh_graph ns (n + d)) = Inr (shift_node d s1, g2) \<and>
             set (triples g2) = shift_triple d ` set (triples g1)"
    by blast
qed

lemma renaming_invariant_E0: "renaming_invariant E0"
  by (simp add: renaming_invariant_def E0_def)

text \<open>Claim C8 at a concrete input: \<open>Ontology(version=iri_v)\<close>, rendered as RDF into two
  new graphs one after the other.\<close>

theorem Ontology_render_twice_witness:
  "renaming_invariant E0 \<and>
   Ontology_to_rdf E0 (version_only iri_v) (fresh_graph [] 0) =
     Inr (BNode 0,
          \<lparr>triples = [(BNode 0, RDF_type, OWL_Ontology),
                      (BNode 0, OWL_versionIRI, URIRef ''http://x/o/1.0'')],
           namespaces = [], next_bnode = 1\<rparr>) \<and>
   Ontology_to_rdf E0 (version_only iri_v) (fresh_graph [] 1) =
     Inr (BNode 1,
          \<lparr>triples = [(BNode 1, RDF_type, OWL_Ontology),
                      (BNode 1, OWL_versionIRI, URIRef ''http://x/o/1.0'')],
           namespaces = [], next_bnode = 2\<rparr>)"
proof -
  have a: "Ontology_to_rdf E0 (version_only iri_v) (fresh_graph [] 0) =
     Inr (BNode 0,
          \<lparr>triples = [(BNode 0, RDF_type, OWL_Ontology),
                      (BNode 0, OWL_versionIRI, URIRef ''http://x/o/1.0'')],
           namespaces = [], next_bnode = 1\<rparr>)"
    by (simp add: version_only_def iri_v_def fresh_graph_def E0_def new_BNode_def graph_add_def)
  show ?thesis
    using renaming_invariant_E0 a
      Ontology_render_twice [OF renaming_invariant_E0, of "version_only iri_v" "[]" 0 1]
    by (simp add: shift_graph_def shift_triple_def RDF_type_def OWL_Ontology_def OWL_versionIRI_def)
qed


end
